theory Spec2Isabelle
  imports Complex_Main "HOL-Library.List_Lexorder" "HOL-Library.Multiset"
begin

section \<open>Python strings and built-ins used by the converter\<close>

text \<open>
  A Python \<^verbatim>\<open>str\<close> is a list of Unicode code points: the texts of the line edits, the
  folder and file names, and what is built from them. They are compared and sorted code
  point by code point, as Python does. The literals of the program that never meet a text
  of the user (button texts, toast messages and types, option names) stay plain strings.
\<close>

type_synonym pystr = "nat list"

text \<open>An ASCII literal of the program as a \<^verbatim>\<open>str\<close>.\<close>

definition ascii :: "string \<Rightarrow> pystr" where
  "ascii s = map of_char s"

text \<open>
  \<^verbatim>\<open>str.isspace\<close> for one character, which is what \<^verbatim>\<open>str.strip()\<close> removes: the characters
  of Python's whitespace table (Unicode 14.0, the database of Python 3.11).
\<close>

definition is_unicode_space :: "nat \<Rightarrow> bool" where
  "is_unicode_space c =
     ((0x09 \<le> c \<and> c \<le> 0x0D) \<or> (0x1C \<le> c \<and> c \<le> 0x20) \<or> c = 0x85 \<or> c = 0xA0 \<or>
      c = 0x1680 \<or> (0x2000 \<le> c \<and> c \<le> 0x200A) \<or> c = 0x2028 \<or> c = 0x2029 \<or>
      c = 0x202F \<or> c = 0x205F \<or> c = 0x3000)"

text \<open>\<^verbatim>\<open>s.strip()\<close>\<close>

definition strip :: "pystr \<Rightarrow> pystr" where
  "strip s = rev (dropWhile is_unicode_space (rev (dropWhile is_unicode_space s)))"

text \<open>\<^verbatim>\<open>s.endswith(suffix)\<close>\<close>

definition endswith :: "pystr \<Rightarrow> pystr \<Rightarrow> bool" where
  "endswith s suf = (length suf \<le> length s \<and> drop (length s - length suf) s = suf)"

text \<open>
  The first code point of each run of ten decimal digits (category Nd) of Unicode 14.0:
  the digits \<^verbatim>\<open>int()\<close> reads in Python 3.11.
\<close>

definition decimal_zeros :: "nat list" where
  "decimal_zeros =
     [0x30, 0x660, 0x6F0, 0x7C0, 0x966, 0x9E6, 0xA66, 0xAE6,
      0xB66, 0xBE6, 0xC66, 0xCE6, 0xD66, 0xDE6, 0xE50, 0xED0,
      0xF20, 0x1040, 0x1090, 0x17E0, 0x1810, 0x1946, 0x19D0, 0x1A80,
      0x1A90, 0x1B50, 0x1BB0, 0x1C40, 0x1C50, 0xA620, 0xA8D0, 0xA900,
      0xA9D0, 0xA9F0, 0xAA50, 0xABF0, 0xFF10, 0x104A0, 0x10D30, 0x11066,
      0x110F0, 0x11136, 0x111D0, 0x112F0, 0x11450, 0x114D0, 0x11650, 0x116C0,
      0x11730, 0x118E0, 0x11950, 0x11C50, 0x11D50, 0x11DA0, 0x16A60, 0x16AC0,
      0x16B50, 0x1D7CE, 0x1D7D8, 0x1D7E2, 0x1D7EC, 0x1D7F6, 0x1E140, 0x1E2F0,
      0x1E950, 0x1FBF0]"

text \<open>The decimal value of a character, if it is a decimal digit.\<close>

definition to_decimal :: "nat \<Rightarrow> nat option" where
  "to_decimal c =
     map_option (\<lambda>z. c - z) (find (\<lambda>z. z \<le> c \<and> c < z + 10) decimal_zeros)"

text \<open>
  Before \<^verbatim>\<open>int()\<close> parses a \<^verbatim>\<open>str\<close>, every character from 127 on is replaced: whitespace by
  a space, a decimal digit by its ASCII digit, anything else by a question mark, which no
  number contains. Characters below 127 are kept.
\<close>

definition to_ascii :: "nat \<Rightarrow> nat" where
  "to_ascii c =
     (if c < 127 then c
      else if is_unicode_space c then 0x20
      else case to_decimal c of None \<Rightarrow> 0x3F | Some d \<Rightarrow> 0x30 + d)"

text \<open>
  The whitespace that the parser of \<^verbatim>\<open>int()\<close> skips around the number: TAB, LF, VT, FF, CR
  and the space. The separators 0x1C to 0x1F are not among them.
\<close>

definition is_c_space :: "nat \<Rightarrow> bool" where
  "is_c_space c = ((0x09 \<le> c \<and> c \<le> 0x0D) \<or> c = 0x20)"

definition is_digit_or_underscore :: "nat \<Rightarrow> bool" where
  "is_digit_or_underscore c = ((0x30 \<le> c \<and> c \<le> 0x39) \<or> c = 0x5F)"

text \<open>No two underscores in a row.\<close>

fun single_underscores :: "nat list \<Rightarrow> bool" where
  "single_underscores (c # d # cs) = (\<not> (c = 0x5F \<and> d = 0x5F) \<and> single_underscores (d # cs))"
| "single_underscores _ = True"

text \<open>The value of a list of ASCII digits.\<close>

definition digits_value :: "nat list \<Rightarrow> int" where
  "digits_value ds = foldl (\<lambda>acc c. 10 * acc + (int c - 0x30)) 0 ds"

text \<open>
  A decimal literal with the whitespace after it: digits with single underscores between
  them, at most 4300 digits (the default limit of the conversion), then only whitespace.
\<close>

definition decimal :: "nat list \<Rightarrow> int option" where
  "decimal s =
     (let lit = takeWhile is_digit_or_underscore s;
          rest = dropWhile is_digit_or_underscore s;
          ds = filter (\<lambda>c. c \<noteq> 0x5F) lit
      in if lit \<noteq> [] \<and> hd lit \<noteq> 0x5F \<and> last lit \<noteq> 0x5F \<and> single_underscores lit \<and>
            length ds \<le> 4300 \<and> dropWhile is_c_space rest = []
         then Some (digits_value ds) else None)"

text \<open>
  \<^verbatim>\<open>int(s)\<close> for a \<^verbatim>\<open>str\<close> in base 10: whitespace, one optional sign, a decimal literal,
  whitespace. \<open>None\<close> stands for the \<^verbatim>\<open>ValueError\<close> that Python raises on any other text.
\<close>

definition py_int :: "pystr \<Rightarrow> int option" where
  "py_int s =
     (case dropWhile is_c_space (map to_ascii s) of
        [] \<Rightarrow> None
      | c # cs \<Rightarrow> if c = 0x2D then map_option uminus (decimal cs)
                 else if c = 0x2B then decimal cs
                 else decimal (c # cs))"

text \<open>
  \<^verbatim>\<open>int(a / b)\<close> for integers \<open>a\<close> and \<open>b \<noteq> 0\<close>: the quotient truncated towards zero.
  Python rounds the quotient to a double before truncating it. The definition is the
  truncation of the exact quotient, which is the same number for \<open>1000 / fps\<close> with any
  \<open>fps > 0\<close> and for \<open>delay / 10\<close> with \<open>\<bar>delay\<bar> \<le> 2 ^ 53\<close>: there the exact quotient, when
  it is not an integer, lies further from the next integer than half the spacing of the
  doubles around it.
\<close>

definition int_truediv :: "int \<Rightarrow> int \<Rightarrow> int" where
  "int_truediv a b = sgn a * sgn b * (\<bar>a\<bar> div \<bar>b\<bar>)"

text \<open>\<^verbatim>\<open>os.path.join(a, b)\<close> on a POSIX system.\<close>

definition path_join :: "pystr \<Rightarrow> pystr \<Rightarrow> pystr" where
  "path_join a b =
     (if b \<noteq> [] \<and> hd b = 0x2F then b
      else if a = [] \<or> last a = 0x2F then a @ b
      else a @ [0x2F] @ b)"

section \<open>The imaging libraries and the file system\<close>

text \<open>
  The exceptions of the program, all of them instances of \<^verbatim>\<open>Exception\<close>. \<open>FileNotFoundError\<close>
  is Python's exception of this name with the text \<^verbatim>\<open>str(e)\<close> gives for it, whether the
  conversion functions raise it themselves or a library call does; \<open>IndexError\<close> is the
  error of \<^verbatim>\<open>images[0]\<close> on an empty list; \<open>LibraryException\<close> is an exception of any other
  class raised inside a call of Pillow or of the apng package, with its text.
\<close>

datatype error = FileNotFoundError pystr | IndexError | LibraryException pystr

text \<open>\<^verbatim>\<open>str(e)\<close>\<close>

fun str :: "error \<Rightarrow> pystr" where
  "str (FileNotFoundError m) = m"
| "str IndexError = ascii ''list index out of range''"
| "str (LibraryException m) = m"

text \<open>
  A Pillow image, as far as the program looks at it: the file it was decoded from, its mode
  and its \<^verbatim>\<open>info\<close> dictionary.
\<close>

record image =
  source_file :: pystr
  mode :: string
  info :: "string \<rightharpoonup> int"

text \<open>Values of the keyword arguments of \<^verbatim>\<open>Image.save\<close>.\<close>

datatype pyval = PStr string | PBool bool | PInt int | PImages "image list"

text \<open>
  A frame of an \<^verbatim>\<open>apng.APNG\<close> object: the file appended and the frame control made from the
  options of \<^verbatim>\<open>append_file\<close>, of which the program gives \<^verbatim>\<open>delay\<close> only. The frame is shown
  for \<open>delay / delay_den\<close> seconds.
\<close>

record apng_frame =
  frame_file :: pystr
  frame_delay :: int
  frame_delay_den :: int

text \<open>A completed save call: the object saved, the output file name and the options.\<close>

datatype save_call =
  ImageSave image pystr "string \<rightharpoonup> pyval"
| ApngSave "apng_frame list" pystr

text \<open>
  What the program cannot decide by itself: the names each directory holds (none for a path
  that is no directory), the answer of \<^verbatim>\<open>glob.glob\<close> to a pattern on this file system (in
  directory order), which library calls raise and what, the \<^verbatim>\<open>info\<close> of a decoded file, and
  the save calls completed so far. The program reads the directories through \<^verbatim>\<open>glob.glob\<close>
  only.
\<close>

record world =
  listdir :: "pystr \<Rightarrow> pystr list"
  glob :: "pystr \<Rightarrow> pystr list"
  image_info :: "pystr \<Rightarrow> (string \<rightharpoonup> int)"
  open_raises :: "pystr \<Rightarrow> error option"
  image_save_raises :: "pystr \<Rightarrow> error option"
  append_file_raises :: "pystr \<Rightarrow> error option"
  apng_save_raises :: "pystr \<Rightarrow> error option"
  saved :: "save_call list"

text \<open>\<^verbatim>\<open>Image.open(png_file).convert("RGBA")\<close>\<close>

definition open_rgba :: "world \<Rightarrow> pystr \<Rightarrow> error + image" where
  "open_rgba w png_file =
     (case open_raises w png_file of
        Some e \<Rightarrow> Inl e
      | None \<Rightarrow> Inr \<lparr>source_file = png_file, mode = ''RGBA'', info = image_info w png_file\<rparr>)"

text \<open>\<^verbatim>\<open>img.save(output_file, **save_params)\<close>\<close>

definition image_save ::
  "image \<Rightarrow> pystr \<Rightarrow> (string \<rightharpoonup> pyval) \<Rightarrow> world \<Rightarrow> (error + unit) \<times> world" where
  "image_save img output_file save_params w =
     (case image_save_raises w output_file of
        Some e \<Rightarrow> (Inl e, w)
      | None \<Rightarrow> (Inr (), w\<lparr>saved := saved w @ [ImageSave img output_file save_params]\<rparr>))"

text \<open>
  \<^verbatim>\<open>apng_obj.append_file(png_file, delay=d)\<close>: the frame control gets the delay given and the
  denominator 1000, which is the default of the package when \<^verbatim>\<open>delay_den\<close> is not given.
\<close>

definition append_file ::
  "world \<Rightarrow> apng_frame list \<Rightarrow> pystr \<Rightarrow> int \<Rightarrow> error + apng_frame list" where
  "append_file w apng_obj png_file d =
     (case append_file_raises w png_file of
        Some e \<Rightarrow> Inl e
      | None \<Rightarrow>
          Inr (apng_obj @ [\<lparr>frame_file = png_file, frame_delay = d, frame_delay_den = 1000\<rparr>]))"

text \<open>\<^verbatim>\<open>apng_obj.save(output_file)\<close>\<close>

definition apng_save :: "apng_frame list \<Rightarrow> pystr \<Rightarrow> world \<Rightarrow> (error + unit) \<times> world" where
  "apng_save apng_obj output_file w =
     (case apng_save_raises w output_file of
        Some e \<Rightarrow> (Inl e, w)
      | None \<Rightarrow> (Inr (), w\<lparr>saved := saved w @ [ApngSave apng_obj output_file]\<rparr>))"

section \<open>The conversion functions\<close>

text \<open>
  The loop of \<^verbatim>\<open>create_webp\<close> over \<^verbatim>\<open>enumerate(png_files)\<close>, from index \<open>i\<close> on, appending to
  \<open>images\<close>; an exception of the library ends it.
\<close>

fun load_images ::
  "world \<Rightarrow> int \<Rightarrow> nat \<Rightarrow> image list \<Rightarrow> pystr list \<Rightarrow> error + image list" where
  "load_images w delay i images [] = Inr images"
| "load_images w delay i images (png_file # rest) =
     (case open_rgba w png_file of
        Inl e \<Rightarrow> Inl e
      | Inr img \<Rightarrow>
          load_images w delay (Suc i)
            (images @ [if i > 0 then img\<lparr>info := (info img)(''duration'' \<mapsto> delay)\<rparr> else img])
            rest)"

definition no_png_message :: "pystr \<Rightarrow> pystr" where
  "no_png_message input_folder =
     ascii ''No PNG files found, please check the '' @ input_folder @ ascii '' folder.''"

definition create_webp ::
  "pystr \<Rightarrow> pystr \<Rightarrow> int \<Rightarrow> int \<Rightarrow> bool \<Rightarrow> world \<Rightarrow> (error + unit) \<times> world" where
  "create_webp output_file input_folder delay quality lossless w =
     (let png_files = sort (glob w (path_join input_folder (ascii ''*.png''))) in
      if png_files = [] then (Inl (FileNotFoundError (no_png_message input_folder)), w)
      else
        case load_images w delay 0 [] png_files of
          Inl e \<Rightarrow> (Inl e, w)
        | Inr images \<Rightarrow>
            let save_params =
                  Map.empty(''format'' \<mapsto> PStr ''WEBP'',
                   ''save_all'' \<mapsto> PBool True,
                   ''append_images'' \<mapsto> PImages (tl images),
                   ''duration'' \<mapsto> PInt delay,
                   ''loop'' \<mapsto> PInt 0,
                   ''lossless'' \<mapsto> PBool lossless);
                save_params =
                  (if \<not> lossless then save_params(''quality'' \<mapsto> PInt quality)
                   else save_params)
            in (case images of
                  [] \<Rightarrow> (Inl IndexError, w)
                | first # _ \<Rightarrow> image_save first output_file save_params w))"

text \<open>The loop of \<^verbatim>\<open>create_apng\<close> over \<open>png_files\<close>.\<close>

fun append_files ::
  "world \<Rightarrow> int \<Rightarrow> apng_frame list \<Rightarrow> pystr list \<Rightarrow> error + apng_frame list" where
  "append_files w delay apng_obj [] = Inr apng_obj"
| "append_files w delay apng_obj (png_file # rest) =
     (case append_file w apng_obj png_file (int_truediv delay 10) of
        Inl e \<Rightarrow> Inl e
      | Inr apng_obj' \<Rightarrow> append_files w delay apng_obj' rest)"

definition create_apng :: "pystr \<Rightarrow> pystr \<Rightarrow> int \<Rightarrow> world \<Rightarrow> (error + unit) \<times> world" where
  "create_apng output_file input_folder delay w =
     (let apng_obj = [];
          png_files = sort (glob w (path_join input_folder (ascii ''*.png''))) in
      if png_files = [] then (Inl (FileNotFoundError (no_png_message input_folder)), w)
      else
        case append_files w delay apng_obj png_files of
          Inl e \<Rightarrow> (Inl e, w)
        | Inr apng_obj' \<Rightarrow> apng_save apng_obj' output_file w)"

section \<open>The worker thread\<close>

record conversion_thread =
  thread_output_file :: pystr
  thread_input_folder :: pystr
  thread_format_type :: string
  thread_delay :: int
  thread_quality :: int
  thread_lossless :: bool

text \<open>
  What a call of \<^verbatim>\<open>ConversionThread.run\<close> leaves behind: the exception it lets escape, if
  any, and the arguments of each \<^verbatim>\<open>conversion_finished.emit\<close>, in order.
\<close>

record run_outcome =
  propagated :: "error option"
  emitted :: "(bool \<times> pystr) list"

definition run :: "conversion_thread \<Rightarrow> world \<Rightarrow> run_outcome \<times> world" where
  "run self w =
     (case (if thread_format_type self = ''webp'' then
              create_webp (thread_output_file self) (thread_input_folder self)
                (thread_delay self) (thread_quality self) (thread_lossless self) w
            else if thread_format_type self = ''apng'' then
              create_apng (thread_output_file self) (thread_input_folder self)
                (thread_delay self) w
            else (Inr (), w)) of
        (Inr _, w') \<Rightarrow> (\<lparr>propagated = None, emitted = [(True, [])]\<rparr>, w')
      | (Inl e, w') \<Rightarrow> (\<lparr>propagated = None, emitted = [(False, str e)]\<rparr>, w'))"

section \<open>The window\<close>

record toast_message =
  message :: string
  duration :: int
  toast_type :: string

datatype size_policy = Fixed | Preferred | Expanding

text \<open>
  The state of \<^verbatim>\<open>WebPConverterApp\<close>: its attributes, the texts of its line edits, the text
  of the checked button of each button group, and what \<^verbatim>\<open>show()\<close>, \<^verbatim>\<open>hide()\<close>,
  \<^verbatim>\<open>setStretch\<close> and \<^verbatim>\<open>setSizePolicy\<close> set on its frames and layouts.
\<close>

record app =
  input_folder :: "pystr option"
  toast :: "toast_message option"
  thread :: "conversion_thread option"
  output_entry :: pystr
  quality_entry :: pystr
  delay_entry :: pystr
  format_checked :: string
  compression_checked :: string
  quality_frame_visible :: bool
  compression_section_visible :: bool
  delay_frame_size_policy :: "size_policy \<times> size_policy"
  format_and_compression_stretch :: "nat \<Rightarrow> nat"
  quality_and_delay_stretch :: "nat \<Rightarrow> nat"

text \<open>The window as the \<^verbatim>\<open>setup_\<close> methods build it, before \<^verbatim>\<open>init_ui\<close> calls \<^verbatim>\<open>toggle_format\<close>.\<close>

definition setup_widgets :: app where
  "setup_widgets =
     \<lparr>input_folder = None, toast = None, thread = None,
      output_entry = ascii ''output.webp'', quality_entry = ascii ''90'',
      delay_entry = ascii ''24'',
      format_checked = ''WebP'', compression_checked = ''Lossy Mode'',
      quality_frame_visible = True, compression_section_visible = True,
      delay_frame_size_policy = (Preferred, Preferred),
      format_and_compression_stretch = (\<lambda>_. 0), quality_and_delay_stretch = (\<lambda>_. 0)\<rparr>"

text \<open>\<^verbatim>\<open>show_toast(parent, message, duration, toast_type)\<close>: the new toast replaces the old one.\<close>

definition show_toast :: "app \<Rightarrow> string \<Rightarrow> int \<Rightarrow> string \<Rightarrow> app" where
  "show_toast parent msg dur ty =
     parent\<lparr>toast := Some \<lparr>message = msg, duration = dur, toast_type = ty\<rparr>\<rparr>"

definition toggle_format :: "app \<Rightarrow> app" where
  "toggle_format self =
     (if format_checked self = ''WebP'' then
        self\<lparr>quality_frame_visible := True,
             compression_section_visible := True,
             format_and_compression_stretch :=
               (format_and_compression_stretch self)(0 := 1, 1 := 1),
             quality_and_delay_stretch := (quality_and_delay_stretch self)(0 := 1, 1 := 1),
             output_entry := ascii ''output.webp''\<rparr>
      else
        self\<lparr>quality_frame_visible := False,
             compression_section_visible := False,
             delay_frame_size_policy := (Expanding, Fixed),
             output_entry := ascii ''output.png''\<rparr>)"

text \<open>
  The first \<^verbatim>\<open>try\<close> block of \<^verbatim>\<open>convert_images\<close>: the delay computed from the frame-rate
  text, or \<open>None\<close> when the block raises \<^verbatim>\<open>ValueError\<close>.
\<close>

definition try_delay :: "pystr \<Rightarrow> int option" where
  "try_delay text =
     (case py_int text of
        None \<Rightarrow> None
      | Some fps \<Rightarrow> if fps \<le> 0 then None else Some (int_truediv 1000 fps))"

text \<open>The second \<^verbatim>\<open>try\<close> block: the quality read from its text, or \<open>None\<close> on \<^verbatim>\<open>ValueError\<close>.\<close>

definition try_quality :: "pystr \<Rightarrow> int option" where
  "try_quality text =
     (case py_int text of
        None \<Rightarrow> None
      | Some quality \<Rightarrow> if quality < 0 \<or> quality > 100 then None else Some quality)"

text \<open>
  \<^verbatim>\<open>convert_images\<close> returns the new state of the window and the thread it has started, if
  it has started one.
\<close>

definition convert_images :: "app \<Rightarrow> app \<times> conversion_thread option" where
  "convert_images self =
     (case input_folder self of
        None \<Rightarrow>
          (show_toast self ''Please select a folder containing PNG files first'' 3000 ''error'',
           None)
      | Some folder \<Rightarrow>
          if folder = [] then
            (show_toast self ''Please select a folder containing PNG files first'' 3000 ''error'',
             None)
          else
            let output_file = strip (output_entry self);
                format_type = (if format_checked self = ''WebP'' then ''webp'' else ''apng'')
            in (case try_delay (delay_entry self) of
                  None \<Rightarrow>
                    (show_toast self ''Frame rate must be a positive integer'' 3000 ''error'',
                     None)
                | Some delay \<Rightarrow>
                    if format_type = ''webp'' \<and> \<not> endswith output_file (ascii ''.webp'') then
                      (show_toast self ''Output file name must end with .webp'' 3000 ''error'',
                       None)
                    else if format_type = ''apng'' \<and> \<not> endswith output_file (ascii ''.png'') then
                      (show_toast self ''Output file name must end with .png'' 3000 ''error'',
                       None)
                    else
                      let lossless = (compression_checked self = ''Lossless Mode'') in
                      (case (if \<not> lossless then try_quality (quality_entry self)
                             else Some 100) of
                         None \<Rightarrow>
                           (show_toast self
                              ''Image quality must be an integer between 0 and 100'' 3000
                              ''error'',
                            None)
                       | Some quality \<Rightarrow>
                           let t = \<lparr>thread_output_file = output_file,
                                    thread_input_folder = folder,
                                    thread_format_type = format_type,
                                    thread_delay = delay,
                                    thread_quality = quality,
                                    thread_lossless = lossless\<rparr>
                           in ((show_toast self ''Converting...'' 0 ''progress'')
                                 \<lparr>thread := Some t\<rparr>,
                               Some t))))"

section \<open>Reading a save call\<close>

text \<open>The value a save call was given for a keyword option, if it was given one.\<close>

fun save_option :: "string \<Rightarrow> save_call \<Rightarrow> pyval option" where
  "save_option key (ImageSave img output_file save_params) = save_params key"
| "save_option key (ApngSave apng_obj output_file) = None"

text \<open>
  The frames of a saved animation, as the files they come from. \<^verbatim>\<open>Image.save\<close> writes the
  image it is called on, and after it the \<^verbatim>\<open>append_images\<close> when \<^verbatim>\<open>save_all\<close> is given as
  true; without \<^verbatim>\<open>save_all\<close> it writes that one image. An APNG object writes its frames.
\<close>

fun frame_files :: "save_call \<Rightarrow> pystr list" where
  "frame_files (ImageSave img output_file save_params) =
     source_file img #
       (case save_params ''save_all'' of
          Some (PBool True) \<Rightarrow>
            (case save_params ''append_images'' of
               Some (PImages appended) \<Rightarrow> map source_file appended
             | _ \<Rightarrow> [])
        | _ \<Rightarrow> [])"
| "frame_files (ApngSave apng_obj output_file) = map frame_file apng_obj"

text \<open>The time a frame of a saved APNG is shown, in milliseconds.\<close>

definition frame_milliseconds :: "apng_frame \<Rightarrow> real" where
  "frame_milliseconds fr = 1000 * real_of_int (frame_delay fr) / real_of_int (frame_delay_den fr)"

section \<open>Sample inputs\<close>

text \<open>
  A file system with five folders. \<^verbatim>\<open>frames\<close> holds three PNG files that the directory
  lists out of order. \<^verbatim>\<open>shot[12]\<close> holds \<^verbatim>\<open>z.png\<close>, and beside it \<^verbatim>\<open>shot1\<close> holds \<^verbatim>\<open>a.png\<close> and
  \<^verbatim>\<open>shot2\<close> holds \<^verbatim>\<open>b.png\<close>. \<^verbatim>\<open>fr[1]\<close> holds \<^verbatim>\<open>a.png\<close>, and there is no folder \<^verbatim>\<open>fr1\<close>.
  \<^verbatim>\<open>glob.glob\<close> reads the brackets of a pattern as a set of characters, in the folder part
  as well: to \<^verbatim>\<open>shot[12]/*.png\<close> it answers with the files of \<^verbatim>\<open>shot1\<close> and \<^verbatim>\<open>shot2\<close>, and to
  \<^verbatim>\<open>fr[1]/*.png\<close> with nothing. Every other pattern matches nothing, and no library call
  fails.
\<close>

definition sample_world :: world where
  "sample_world =
     \<lparr>listdir = (\<lambda>dir. if dir = ascii ''frames''
                          then [ascii ''b.png'', ascii ''a.png'', ascii ''c.png'']
                        else if dir = ascii ''shot[12]'' then [ascii ''z.png'']
                        else if dir = ascii ''shot1'' then [ascii ''a.png'']
                        else if dir = ascii ''shot2'' then [ascii ''b.png'']
                        else if dir = ascii ''fr[1]'' then [ascii ''a.png'']
                        else []),
      glob = (\<lambda>pattern. if pattern = ascii ''frames/*.png''
                          then [ascii ''frames/b.png'', ascii ''frames/a.png'',
                                ascii ''frames/c.png'']
                        else if pattern = ascii ''shot[12]/*.png''
                          then [ascii ''shot2/b.png'', ascii ''shot1/a.png'']
                        else []),
      image_info = (\<lambda>_. Map.empty),
      open_raises = (\<lambda>_. None),
      image_save_raises = (\<lambda>_. None),
      append_file_raises = (\<lambda>_. None),
      apng_save_raises = (\<lambda>_. None),
      saved = []\<rparr>"



text \<open>The window after \<^verbatim>\<open>init_ui\<close>, with the folder \<^verbatim>\<open>frames\<close> selected.\<close>

definition sample_app :: app where
  "sample_app = (toggle_format setup_widgets)\<lparr>input_folder := Some (ascii ''frames'')\<rparr>"

text \<open>The thread that this window starts with APNG selected.\<close>

definition sample_apng_thread :: conversion_thread where
  "sample_apng_thread =
     \<lparr>thread_output_file = ascii ''output.png'', thread_input_folder = ascii ''frames'',
      thread_format_type = ''apng'', thread_delay = 41, thread_quality = 90,
      thread_lossless = False\<rparr>"

section \<open>The built-ins on texts with characters beyond ASCII\<close>

lemma py_int_fullwidth_digits: "py_int [0xFF12, 0xFF14] = Some 24"
  by (simp add: py_int_def to_ascii_def is_unicode_space_def to_decimal_def decimal_zeros_def
        decimal_def is_c_space_def is_digit_or_underscore_def digits_value_def Let_def)

lemma py_int_separator_rejected: "py_int ([0x1C] @ ascii ''24'') = None"
  by (simp add: py_int_def to_ascii_def is_c_space_def ascii_def decimal_def
        is_digit_or_underscore_def Let_def)

lemma strip_no_break_space: "strip (ascii ''out.webp'' @ [0xA0]) = ascii ''out.webp''"
  by (simp add: strip_def is_unicode_space_def ascii_def)

section \<open>Facts about the conversion functions and the library calls\<close>



lemma open_rgba_source: "open_rgba w f = Inr img \<Longrightarrow> source_file img = f"
  by (auto simp: open_rgba_def split: option.splits)


lemma load_images_sources:
  "load_images w d i acc fs = Inr images \<Longrightarrow> map source_file images = map source_file acc @ fs"
proof (induction fs arbitrary: i acc)
  case Nil
  then show ?case by simp
next
  case (Cons f fs)
  from Cons.prems obtain img where o: "open_rgba w f = Inr img"
    and r: "load_images w d (Suc i)
              (acc @ [if i > 0 then img\<lparr>info := (info img)(''duration'' \<mapsto> d)\<rparr> else img]) fs = Inr images"
    by (auto split: sum.splits)
  from Cons.IH [OF r] open_rgba_source [OF o] show ?case by simp
qed




lemma append_files_frames:
  "append_files w d obj fs = Inr obj' \<Longrightarrow>
     obj' = obj @ map (\<lambda>f. \<lparr>frame_file = f, frame_delay = int_truediv d 10,
                              frame_delay_den = 1000\<rparr>) fs"
proof (induction fs arbitrary: obj)
  case Nil
  then show ?case by simp
next
  case (Cons f fs)
  from Cons.prems
  have r: "append_files w d
      (obj @ [\<lparr>frame_file = f, frame_delay = int_truediv d 10, frame_delay_den = 1000\<rparr>]) fs = Inr obj'"
    by (auto simp: append_file_def split: sum.splits option.splits)
  from Cons.IH [OF r] show ?case by simp
qed

text \<open>What a successful call of \<^verbatim>\<open>create_webp\<close> or \<^verbatim>\<open>create_apng\<close> has done.\<close>

lemma create_webp_success:
  assumes "create_webp output_file folder delay quality lossless w = (Inr (), w')"
  shows "\<exists>first rest params.
           load_images w delay 0 [] (sort (glob w (path_join folder (ascii ''*.png'')))) =
             Inr (first # rest) \<and>
           w' = w\<lparr>saved := saved w @ [ImageSave first output_file params]\<rparr> \<and>
           params = (if lossless then
              Map.empty(''format'' \<mapsto> PStr ''WEBP'', ''save_all'' \<mapsto> PBool True,
                ''append_images'' \<mapsto> PImages rest, ''duration'' \<mapsto> PInt delay,
                ''loop'' \<mapsto> PInt 0, ''lossless'' \<mapsto> PBool lossless)
              else Map.empty(''format'' \<mapsto> PStr ''WEBP'', ''save_all'' \<mapsto> PBool True,
                ''append_images'' \<mapsto> PImages rest, ''duration'' \<mapsto> PInt delay,
                ''loop'' \<mapsto> PInt 0, ''lossless'' \<mapsto> PBool lossless, ''quality'' \<mapsto> PInt quality))"
  using assms
  by (auto simp: create_webp_def Let_def image_save_def
           split: if_splits sum.splits list.splits option.splits)

lemma create_apng_success:
  assumes "create_apng output_file folder delay w = (Inr (), w')"
  shows "w' = w\<lparr>saved := saved w @
            [ApngSave (map (\<lambda>f. \<lparr>frame_file = f, frame_delay = int_truediv delay 10,
                                    frame_delay_den = 1000\<rparr>)
                        (sort (glob w (path_join folder (ascii ''*.png''))))) output_file]\<rparr>"
  using assms
  by (auto simp: create_apng_def Let_def apng_save_def
           split: if_splits sum.splits option.splits dest: append_files_frames)



section \<open>The sample inputs evaluated\<close>

lemma sample_sorted:
  "sort [ascii ''frames/b.png'', ascii ''frames/a.png'', ascii ''frames/c.png''] =
     [ascii ''frames/a.png'', ascii ''frames/b.png'', ascii ''frames/c.png'']"
  by code_simp

lemma sample_sorted_shots:
  "sort [ascii ''shot2/b.png'', ascii ''shot1/a.png''] =
     [ascii ''shot1/a.png'', ascii ''shot2/b.png'']"
  by code_simp

lemma sample_glob:
  "glob sample_world (path_join (ascii ''frames'') (ascii ''*.png'')) =
     [ascii ''frames/b.png'', ascii ''frames/a.png'', ascii ''frames/c.png'']"
  by code_simp

lemma sample_glob_empty: "glob sample_world (path_join (ascii ''empty'') (ascii ''*.png'')) = []"
  by code_simp

lemma sample_glob_shots:
  "glob sample_world (path_join (ascii ''shot[12]'') (ascii ''*.png'')) =
     [ascii ''shot2/b.png'', ascii ''shot1/a.png'']"
  by code_simp

lemma sample_sorted_glob_shots:
  "sort (glob sample_world (path_join (ascii ''shot[12]'') (ascii ''*.png''))) =
     [ascii ''shot1/a.png'', ascii ''shot2/b.png'']"
  by (simp only: sample_glob_shots sample_sorted_shots)

lemma sample_listdir_shots: "listdir sample_world (ascii ''shot[12]'') = [ascii ''z.png'']"
  by code_simp



lemma sample_world_quiet:
  "open_raises sample_world f = None" "image_save_raises sample_world f = None"
  "append_file_raises sample_world f = None" "apng_save_raises sample_world f = None"
  "saved sample_world = []"
  by (simp_all add: sample_world_def)


lemma sample_create_webp:
  "fst (create_webp (ascii ''output.webp'') (ascii ''frames'') 41 90 l sample_world) = Inr ()"
  by (simp add: create_webp_def sample_glob sample_sorted open_rgba_def image_save_def Let_def
        sample_world_quiet)

lemma sample_create_apng:
  "fst (create_apng (ascii ''output.png'') (ascii ''frames'') 41 sample_world) = Inr ()"
  by (simp add: create_apng_def sample_glob sample_sorted append_file_def apng_save_def Let_def
        sample_world_quiet)

section \<open>The claims\<close>

text \<open>
  C8. \<^verbatim>\<open>toggle_format\<close> sets the interface by the checked format: with APNG checked the quality
  frame and the compression section are hidden and the output file name becomes
  \<^verbatim>\<open>output.png\<close>; with WebP checked both are shown and the name becomes \<^verbatim>\<open>output.webp\<close>.
\<close>

theorem toggle_format_follows_checked_format:
  "(format_checked self = ''APNG'' \<longrightarrow>
      \<not> quality_frame_visible (toggle_format self) \<and>
      \<not> compression_section_visible (toggle_format self) \<and>
      output_entry (toggle_format self) = ascii ''output.png'') \<and>
   (format_checked self = ''WebP'' \<longrightarrow>
      quality_frame_visible (toggle_format self) \<and>
      compression_section_visible (toggle_format self) \<and>
      output_entry (toggle_format self) = ascii ''output.webp'')"
  by (simp add: toggle_format_def)

theorem toggle_format_follows_checked_format_witness:
  "format_checked (setup_widgets\<lparr>format_checked := ''APNG''\<rparr>) = ''APNG'' \<and>
   \<not> quality_frame_visible (toggle_format (setup_widgets\<lparr>format_checked := ''APNG''\<rparr>)) \<and>
   \<not> compression_section_visible (toggle_format (setup_widgets\<lparr>format_checked := ''APNG''\<rparr>)) \<and>
   output_entry (toggle_format (setup_widgets\<lparr>format_checked := ''APNG''\<rparr>)) =
     ascii ''output.png'' \<and>
   format_checked setup_widgets = ''WebP'' \<and>
   quality_frame_visible (toggle_format setup_widgets) \<and>
   compression_section_visible (toggle_format setup_widgets) \<and>
   output_entry (toggle_format setup_widgets) = ascii ''output.webp''"
proof -
  have a: "format_checked (setup_widgets\<lparr>format_checked := ''APNG''\<rparr>) = ''APNG''"
    by simp
  have b: "format_checked setup_widgets = ''WebP''"
    by (simp add: setup_widgets_def)
  from a b toggle_format_follows_checked_format [of "setup_widgets\<lparr>format_checked := ''APNG''\<rparr>"]
    toggle_format_follows_checked_format [of setup_widgets]
  show ?thesis by blast
qed

text \<open>
  C7 says that every successful \<^verbatim>\<open>create_webp\<close> gives the save call the delay, the quality and
  the lossless flag, whether lossless mode is on or not. With lossless mode on, the call
  succeeds on the sample folder and the save call has no \<^verbatim>\<open>quality\<close> option.
\<close>

theorem create_webp_lossless_omits_quality:
  "fst (create_webp (ascii ''output.webp'') (ascii ''frames'') 41 90 True sample_world) = Inr () \<and>
   map (save_option ''quality'')
     (saved (snd (create_webp (ascii ''output.webp'') (ascii ''frames'') 41 90 True sample_world))) =
     [None]"
  by (simp add: create_webp_def sample_glob sample_sorted open_rgba_def image_save_def Let_def
        sample_world_quiet)

text \<open>
  C7, as the code has it: a successful \<^verbatim>\<open>create_webp\<close> completes one save call, whose
  \<^verbatim>\<open>duration\<close> is the delay and whose \<^verbatim>\<open>lossless\<close> is the flag; \<^verbatim>\<open>quality\<close> is given, with the
  quality argument, exactly when lossless mode is off.
\<close>

theorem create_webp_save_parameters:
  assumes "create_webp output_file folder delay quality lossless w = (Inr (), w')"
  shows "\<exists>call. saved w' = saved w @ [call] \<and>
           save_option ''duration'' call = Some (PInt delay) \<and>
           save_option ''lossless'' call = Some (PBool lossless) \<and>
           save_option ''quality'' call = (if lossless then None else Some (PInt quality))"
proof -
  from create_webp_success [OF assms] obtain first rest params where
    w': "w' = w\<lparr>saved := saved w @ [ImageSave first output_file params]\<rparr>" and
    p: "params = (if lossless then
              Map.empty(''format'' \<mapsto> PStr ''WEBP'', ''save_all'' \<mapsto> PBool True,
                ''append_images'' \<mapsto> PImages rest, ''duration'' \<mapsto> PInt delay,
                ''loop'' \<mapsto> PInt 0, ''lossless'' \<mapsto> PBool lossless)
              else Map.empty(''format'' \<mapsto> PStr ''WEBP'', ''save_all'' \<mapsto> PBool True,
                ''append_images'' \<mapsto> PImages rest, ''duration'' \<mapsto> PInt delay,
                ''loop'' \<mapsto> PInt 0, ''lossless'' \<mapsto> PBool lossless, ''quality'' \<mapsto> PInt quality))"
    by blast
  have "saved w' = saved w @ [ImageSave first output_file params]"
    using w' by simp
  moreover have "save_option ''duration'' (ImageSave first output_file params) = Some (PInt delay)"
    using p by simp
  moreover have "save_option ''lossless'' (ImageSave first output_file params) = Some (PBool lossless)"
    using p by simp
  moreover have "save_option ''quality'' (ImageSave first output_file params) =
                   (if lossless then None else Some (PInt quality))"
    using p by simp
  ultimately show ?thesis by blast
qed

theorem create_webp_save_parameters_witness:
  "create_webp (ascii ''output.webp'') (ascii ''frames'') 41 90 False sample_world =
     (Inr (), snd (create_webp (ascii ''output.webp'') (ascii ''frames'') 41 90 False sample_world)) \<and>
   map (save_option ''duration'')
     (saved (snd (create_webp (ascii ''output.webp'') (ascii ''frames'') 41 90 False sample_world))) =
     [Some (PInt 41)] \<and>
   map (save_option ''lossless'')
     (saved (snd (create_webp (ascii ''output.webp'') (ascii ''frames'') 41 90 False sample_world))) =
     [Some (PBool False)] \<and>
   map (save_option ''quality'')
     (saved (snd (create_webp (ascii ''output.webp'') (ascii ''frames'') 41 90 False sample_world))) =
     [Some (PInt 90)]"
proof -
  have h: "create_webp (ascii ''output.webp'') (ascii ''frames'') 41 90 False sample_world =
     (Inr (), snd (create_webp (ascii ''output.webp'') (ascii ''frames'') 41 90 False sample_world))"
    using sample_create_webp [of False] by (simp add: prod_eq_iff)
  from create_webp_save_parameters [OF h] h show ?thesis
    by (auto simp: sample_world_quiet)
qed




text \<open>
  In terms of the answer of \<^verbatim>\<open>glob.glob\<close>: a successful \<^verbatim>\<open>create_webp\<close> or \<^verbatim>\<open>create_apng\<close>
  saves one animation, whose frames come, one by one and in this order, from the sorted
  answer, which is in ascending order and holds the files of the answer.
\<close>

lemma frames_follow_sorted_glob_answer:
  "(create_webp output_file folder delay quality lossless w = (Inr (), w') \<longrightarrow>
      (\<exists>call. saved w' = saved w @ [call] \<and>
              frame_files call = sort (glob w (path_join folder (ascii ''*.png''))))) \<and>
   (create_apng output_file folder delay w = (Inr (), w'') \<longrightarrow>
      (\<exists>call. saved w'' = saved w @ [call] \<and>
              frame_files call = sort (glob w (path_join folder (ascii ''*.png''))))) \<and>
   sorted (sort (glob w (path_join folder (ascii ''*.png'')))) \<and>
   mset (sort (glob w (path_join folder (ascii ''*.png'')))) =
     mset (glob w (path_join folder (ascii ''*.png'')))"
proof (intro conjI impI)
  assume a: "create_webp output_file folder delay quality lossless w = (Inr (), w')"
  from create_webp_success [OF a] obtain first rest params where
    l: "load_images w delay 0 [] (sort (glob w (path_join folder (ascii ''*.png'')))) =
          Inr (first # rest)" and
    w': "w' = w\<lparr>saved := saved w @ [ImageSave first output_file params]\<rparr>" and
    p: "params = (if lossless then
              Map.empty(''format'' \<mapsto> PStr ''WEBP'', ''save_all'' \<mapsto> PBool True,
                ''append_images'' \<mapsto> PImages rest, ''duration'' \<mapsto> PInt delay,
                ''loop'' \<mapsto> PInt 0, ''lossless'' \<mapsto> PBool lossless)
              else Map.empty(''format'' \<mapsto> PStr ''WEBP'', ''save_all'' \<mapsto> PBool True,
                ''append_images'' \<mapsto> PImages rest, ''duration'' \<mapsto> PInt delay,
                ''loop'' \<mapsto> PInt 0, ''lossless'' \<mapsto> PBool lossless, ''quality'' \<mapsto> PInt quality))"
    by blast
  have ai: "params ''append_images'' = Some (PImages rest)"
    using p by simp
  have sa: "params ''save_all'' = Some (PBool True)"
    using p by simp
  have "frame_files (ImageSave first output_file params) = map source_file (first # rest)"
    using ai sa by simp
  also have "\<dots> = sort (glob w (path_join folder (ascii ''*.png'')))"
    using load_images_sources [OF l] by simp
  finally have "frame_files (ImageSave first output_file params) =
      sort (glob w (path_join folder (ascii ''*.png'')))" .
  moreover have "saved w' = saved w @ [ImageSave first output_file params]"
    using w' by simp
  ultimately show "\<exists>call. saved w' = saved w @ [call] \<and>
              frame_files call = sort (glob w (path_join folder (ascii ''*.png'')))"
    by blast
next
  assume a: "create_apng output_file folder delay w = (Inr (), w'')"
  have "frame_files (ApngSave (map (\<lambda>f. \<lparr>frame_file = f, frame_delay = int_truediv delay 10,
                                    frame_delay_den = 1000\<rparr>)
                        (sort (glob w (path_join folder (ascii ''*.png''))))) output_file) =
        sort (glob w (path_join folder (ascii ''*.png'')))"
    by (simp add: comp_def)
  moreover have "saved w'' = saved w @
      [ApngSave (map (\<lambda>f. \<lparr>frame_file = f, frame_delay = int_truediv delay 10,
                              frame_delay_den = 1000\<rparr>)
                        (sort (glob w (path_join folder (ascii ''*.png''))))) output_file]"
    using create_apng_success [OF a] by simp
  ultimately show "\<exists>call. saved w'' = saved w @ [call] \<and>
              frame_files call = sort (glob w (path_join folder (ascii ''*.png'')))"
    by blast
qed simp_all

text \<open>
  C6 says that the frames come, in sorted order, from the \<^verbatim>\<open>*.png\<close> files of the folder. The
  folder \<^verbatim>\<open>shot[12]\<close> holds \<^verbatim>\<open>z.png\<close> and nothing else. The program hands the folder name to
  \<^verbatim>\<open>glob.glob\<close> as it is, so both functions succeed with the two frames \<^verbatim>\<open>shot1/a.png\<close> and
  \<^verbatim>\<open>shot2/b.png\<close> of the neighbouring folders, and \<^verbatim>\<open>z.png\<close> is no frame.
\<close>

theorem frames_of_bracket_folder_from_other_folders:
  "listdir sample_world (ascii ''shot[12]'') = [ascii ''z.png''] \<and>
   fst (create_webp (ascii ''output.webp'') (ascii ''shot[12]'') 41 90 False sample_world) =
     Inr () \<and>
   map frame_files
     (saved (snd (create_webp (ascii ''output.webp'') (ascii ''shot[12]'') 41 90 False
                    sample_world))) =
     [ [ascii ''shot1/a.png'', ascii ''shot2/b.png'']] \<and>
   fst (create_apng (ascii ''output.png'') (ascii ''shot[12]'') 41 sample_world) = Inr () \<and>
   map frame_files
     (saved (snd (create_apng (ascii ''output.png'') (ascii ''shot[12]'') 41 sample_world))) =
     [ [ascii ''shot1/a.png'', ascii ''shot2/b.png'']]"
  by (simp add: sample_listdir_shots create_webp_def create_apng_def sample_sorted_glob_shots
        open_rgba_def image_save_def append_file_def apng_save_def Let_def sample_world_quiet)

text \<open>
  C2. \<^verbatim>\<open>ConversionThread.run\<close> lets no exception escape and emits \<^verbatim>\<open>conversion_finished\<close>
  exactly once: \<^verbatim>\<open>(True, "")\<close> when the conversion function of its format returns, and
  \<^verbatim>\<open>(False, str(e))\<close> when that function raises \<open>e\<close>.
\<close>

theorem run_emits_exactly_once:
  "propagated (fst (run self w)) = None \<and>
   length (emitted (fst (run self w))) = 1 \<and>
   (thread_format_type self = ''webp'' \<longrightarrow>
      (fst (create_webp (thread_output_file self) (thread_input_folder self)
              (thread_delay self) (thread_quality self) (thread_lossless self) w) = Inr ()
         \<longrightarrow> emitted (fst (run self w)) = [(True, [])]) \<and>
      (\<forall>e. fst (create_webp (thread_output_file self) (thread_input_folder self)
                  (thread_delay self) (thread_quality self) (thread_lossless self) w) = Inl e
         \<longrightarrow> emitted (fst (run self w)) = [(False, str e)])) \<and>
   (thread_format_type self = ''apng'' \<longrightarrow>
      (fst (create_apng (thread_output_file self) (thread_input_folder self)
              (thread_delay self) w) = Inr ()
         \<longrightarrow> emitted (fst (run self w)) = [(True, [])]) \<and>
      (\<forall>e. fst (create_apng (thread_output_file self) (thread_input_folder self)
                  (thread_delay self) w) = Inl e
         \<longrightarrow> emitted (fst (run self w)) = [(False, str e)]))"
proof -
  obtain r w' where c: "(if thread_format_type self = ''webp'' then
              create_webp (thread_output_file self) (thread_input_folder self)
                (thread_delay self) (thread_quality self) (thread_lossless self) w
            else if thread_format_type self = ''apng'' then
              create_apng (thread_output_file self) (thread_input_folder self)
                (thread_delay self) w
            else (Inr (), w)) = (r, w')"
    by (cases "(if thread_format_type self = ''webp'' then
              create_webp (thread_output_file self) (thread_input_folder self)
                (thread_delay self) (thread_quality self) (thread_lossless self) w
            else if thread_format_type self = ''apng'' then
              create_apng (thread_output_file self) (thread_input_folder self)
                (thread_delay self) w
            else (Inr (), w))") auto
  have r: "fst (run self w) =
             (case r of Inr _ \<Rightarrow> \<lparr>propagated = None, emitted = [(True, [])]\<rparr>
                      | Inl e \<Rightarrow> \<lparr>propagated = None, emitted = [(False, str e)]\<rparr>)"
    unfolding run_def c by (simp split: sum.splits)
  show ?thesis
  proof (cases r)
    case (Inl e)
    with r c show ?thesis by (auto split: if_splits)
  next
    case (Inr u)
    with r c show ?thesis by (auto split: if_splits)
  qed
qed

theorem run_emits_exactly_once_witness:
  "thread_format_type
     \<lparr>thread_output_file = ascii ''output.webp'', thread_input_folder = ascii ''frames'',
      thread_format_type = ''webp'', thread_delay = 41, thread_quality = 90,
      thread_lossless = False\<rparr> = ''webp'' \<and>
   fst (create_webp (ascii ''output.webp'') (ascii ''frames'') 41 90 False sample_world) = Inr () \<and>
   emitted (fst (run \<lparr>thread_output_file = ascii ''output.webp'',
      thread_input_folder = ascii ''frames'',
      thread_format_type = ''webp'', thread_delay = 41, thread_quality = 90,
      thread_lossless = False\<rparr> sample_world)) = [(True, [])] \<and>
   thread_format_type
     \<lparr>thread_output_file = ascii ''output.png'', thread_input_folder = ascii ''empty'',
      thread_format_type = ''apng'', thread_delay = 41, thread_quality = 90,
      thread_lossless = False\<rparr> = ''apng'' \<and>
   fst (create_apng (ascii ''output.png'') (ascii ''empty'') 41 sample_world) =
     Inl (FileNotFoundError (no_png_message (ascii ''empty''))) \<and>
   emitted (fst (run \<lparr>thread_output_file = ascii ''output.png'',
      thread_input_folder = ascii ''empty'',
      thread_format_type = ''apng'', thread_delay = 41, thread_quality = 90,
      thread_lossless = False\<rparr> sample_world)) =
     [(False, no_png_message (ascii ''empty''))]"
proof -
  have a: "fst (create_webp (ascii ''output.webp'') (ascii ''frames'') 41 90 False sample_world) =
             Inr ()"
    by (rule sample_create_webp)
  have b: "fst (create_apng (ascii ''output.png'') (ascii ''empty'') 41 sample_world) =
     Inl (FileNotFoundError (no_png_message (ascii ''empty'')))"
    by (simp add: create_apng_def sample_glob_empty)
  from a b
    run_emits_exactly_once [of "\<lparr>thread_output_file = ascii ''output.webp'',
      thread_input_folder = ascii ''frames'',
      thread_format_type = ''webp'', thread_delay = 41, thread_quality = 90,
      thread_lossless = False\<rparr>" sample_world]
    run_emits_exactly_once [of "\<lparr>thread_output_file = ascii ''output.png'',
      thread_input_folder = ascii ''empty'',
      thread_format_type = ''apng'', thread_delay = 41, thread_quality = 90,
      thread_lossless = False\<rparr>" sample_world]
  show ?thesis by simp
qed

section \<open>Facts about the window\<close>

lemma try_delay_Some:
  "try_delay text = Some d \<longleftrightarrow> (\<exists>fps. py_int text = Some fps \<and> 0 < fps \<and> d = int_truediv 1000 fps)"
  by (auto simp: try_delay_def split: option.splits)

lemma try_delay_None:
  "try_delay text = None \<longleftrightarrow> \<not> (\<exists>fps. py_int text = Some fps \<and> 0 < fps)"
  by (auto simp: try_delay_def split: option.splits)

lemma try_quality_Some:
  "try_quality text = Some q \<longleftrightarrow> py_int text = Some q \<and> 0 \<le> q \<and> q \<le> 100"
  by (auto simp: try_quality_def split: option.splits)

lemma try_quality_None:
  "try_quality text = None \<longleftrightarrow>
     py_int text = None \<or> (\<exists>q. py_int text = Some q \<and> (q < 0 \<or> 100 < q))"
  by (auto simp: try_quality_def split: option.splits)

lemma int_truediv_pos: "0 < b \<Longrightarrow> 0 \<le> a \<Longrightarrow> int_truediv a b = a div b"
  by (cases "a = 0") (simp_all add: int_truediv_def)

lemma int_truediv_floor: "0 < b \<Longrightarrow> 0 \<le> a \<Longrightarrow> int_truediv a b = \<lfloor>real_of_int a / real_of_int b\<rfloor>"
  by (simp add: int_truediv_pos floor_divide_of_int_eq)

lemma int_truediv_ceiling:
  "0 < b \<Longrightarrow> a < 0 \<Longrightarrow> int_truediv a b = \<lceil>real_of_int a / real_of_int b\<rceil>"
  by (simp add: int_truediv_def ceiling_divide_eq_div)

text \<open>The five ways through \<^verbatim>\<open>convert_images\<close>.\<close>

lemma convert_images_no_folder:
  "input_folder self = None \<or> input_folder self = Some [] \<Longrightarrow>
     convert_images self =
       (show_toast self ''Please select a folder containing PNG files first'' 3000 ''error'', None)"
  by (auto simp: convert_images_def)

lemma convert_images_bad_rate:
  "input_folder self = Some folder \<Longrightarrow> folder \<noteq> [] \<Longrightarrow> try_delay (delay_entry self) = None \<Longrightarrow>
     convert_images self =
       (show_toast self ''Frame rate must be a positive integer'' 3000 ''error'', None)"
  by (simp add: convert_images_def)

lemma convert_images_bad_extension:
  "input_folder self = Some folder \<Longrightarrow> folder \<noteq> [] \<Longrightarrow> try_delay (delay_entry self) = Some d \<Longrightarrow>
   \<not> endswith (strip (output_entry self))
        (ascii (if format_checked self = ''WebP'' then ''.webp'' else ''.png'')) \<Longrightarrow>
     convert_images self =
       (show_toast self
          (if format_checked self = ''WebP'' then ''Output file name must end with .webp''
           else ''Output file name must end with .png'') 3000 ''error'', None)"
  by (cases "format_checked self = ''WebP''") (simp_all add: convert_images_def Let_def)

lemma convert_images_bad_quality:
  "input_folder self = Some folder \<Longrightarrow> folder \<noteq> [] \<Longrightarrow> try_delay (delay_entry self) = Some d \<Longrightarrow>
   endswith (strip (output_entry self))
        (ascii (if format_checked self = ''WebP'' then ''.webp'' else ''.png'')) \<Longrightarrow>
   compression_checked self \<noteq> ''Lossless Mode'' \<Longrightarrow>
   try_quality (quality_entry self) = None \<Longrightarrow>
     convert_images self =
       (show_toast self ''Image quality must be an integer between 0 and 100'' 3000 ''error'',
        None)"
  by (cases "format_checked self = ''WebP''") (simp_all add: convert_images_def Let_def)

lemma convert_images_started:
  "input_folder self = Some folder \<Longrightarrow> folder \<noteq> [] \<Longrightarrow> try_delay (delay_entry self) = Some d \<Longrightarrow>
   endswith (strip (output_entry self))
        (ascii (if format_checked self = ''WebP'' then ''.webp'' else ''.png'')) \<Longrightarrow>
   (if compression_checked self \<noteq> ''Lossless Mode'' then try_quality (quality_entry self)
    else Some 100) = Some q \<Longrightarrow>
     convert_images self =
       ((show_toast self ''Converting...'' 0 ''progress'')
          \<lparr>thread := Some \<lparr>thread_output_file = strip (output_entry self),
                    thread_input_folder = folder,
                    thread_format_type = (if format_checked self = ''WebP'' then ''webp'' else ''apng''),
                    thread_delay = d, thread_quality = q,
                    thread_lossless = (compression_checked self = ''Lossless Mode'')\<rparr>\<rparr>,
        Some \<lparr>thread_output_file = strip (output_entry self),
                    thread_input_folder = folder,
                    thread_format_type = (if format_checked self = ''WebP'' then ''webp'' else ''apng''),
                    thread_delay = d, thread_quality = q,
                    thread_lossless = (compression_checked self = ''Lossless Mode'')\<rparr>)"
  by (cases "format_checked self = ''WebP''") (simp_all add: convert_images_def Let_def)


lemma convert_images_cases [case_names no_folder bad_rate bad_extension bad_quality started]:
  obtains
    "input_folder self = None \<or> input_folder self = Some []"
  | folder where "input_folder self = Some folder" "folder \<noteq> []"
      "try_delay (delay_entry self) = None"
  | folder d where "input_folder self = Some folder" "folder \<noteq> []"
      "try_delay (delay_entry self) = Some d"
      "\<not> endswith (strip (output_entry self))
           (ascii (if format_checked self = ''WebP'' then ''.webp'' else ''.png''))"
  | folder d where "input_folder self = Some folder" "folder \<noteq> []"
      "try_delay (delay_entry self) = Some d"
      "endswith (strip (output_entry self))
           (ascii (if format_checked self = ''WebP'' then ''.webp'' else ''.png''))"
      "compression_checked self \<noteq> ''Lossless Mode''"
      "try_quality (quality_entry self) = None"
  | folder d q where "input_folder self = Some folder" "folder \<noteq> []"
      "try_delay (delay_entry self) = Some d"
      "endswith (strip (output_entry self))
           (ascii (if format_checked self = ''WebP'' then ''.webp'' else ''.png''))"
      "(if compression_checked self \<noteq> ''Lossless Mode'' then try_quality (quality_entry self)
        else Some 100) = Some q"
proof (cases "input_folder self")
  case None
  then show ?thesis using that(1) by simp
next
  case (Some folder)
  show ?thesis
  proof (cases "folder = []")
    case True
    with Some show ?thesis using that(1) by simp
  next
    case ne: False
    show ?thesis
    proof (cases "try_delay (delay_entry self)")
      case None
      with Some ne show ?thesis using that(2) by simp
    next
      case d: (Some d)
      show ?thesis
      proof (cases "endswith (strip (output_entry self))
           (ascii (if format_checked self = ''WebP'' then ''.webp'' else ''.png''))")
        case False
        with Some ne d show ?thesis using that(3) by simp
      next
        case ext: True
        show ?thesis
        proof (cases "(if compression_checked self \<noteq> ''Lossless Mode''
                       then try_quality (quality_entry self) else Some 100)")
          case None
          then have "compression_checked self \<noteq> ''Lossless Mode''"
            "try_quality (quality_entry self) = None"
            by (simp_all split: if_splits)
          with Some ne d ext show ?thesis using that(4) by simp
        next
          case q: (Some q)
          from that(5) [OF Some ne d ext q] show ?thesis .
        qed
      qed
    qed
  qed
qed

text \<open>The sample window field by field, and its checks.\<close>

lemma sample_sorted_glob:
  "sort (glob sample_world (path_join (ascii ''frames'') (ascii ''*.png''))) =
     [ascii ''frames/a.png'', ascii ''frames/b.png'', ascii ''frames/c.png'']"
  by (simp only: sample_glob sample_sorted)

lemma sample_app_fields:
  "input_folder sample_app = Some (ascii ''frames'')"
  "output_entry sample_app = ascii ''output.webp''"
  "quality_entry sample_app = ascii ''90''"
  "delay_entry sample_app = ascii ''24''"
  "format_checked sample_app = ''WebP''"
  "compression_checked sample_app = ''Lossy Mode''"
  by (simp_all add: sample_app_def toggle_format_def setup_widgets_def)

lemma sample_folder_not_empty: "ascii ''frames'' \<noteq> []"
  by (simp add: ascii_def)

lemma sample_py_int:
  "py_int (ascii ''24'') = Some 24" "py_int (ascii ''90'') = Some 90"
  "py_int (ascii ''0'') = Some 0" "py_int (ascii ''101'') = Some 101"
  "py_int (ascii ''high'') = None"
  by (simp_all add: py_int_def to_ascii_def is_c_space_def ascii_def decimal_def
        is_digit_or_underscore_def digits_value_def Let_def)

lemma py_int_fullwidth_ninety: "py_int [0xFF19, 0xFF10] = Some 90"
  by (simp add: py_int_def to_ascii_def is_unicode_space_def to_decimal_def decimal_zeros_def
        decimal_def is_c_space_def is_digit_or_underscore_def digits_value_def Let_def)

lemma sample_try_delay: "try_delay (ascii ''24'') = Some 41"
  by (simp add: try_delay_def sample_py_int int_truediv_def)

lemma sample_try_quality: "try_quality (ascii ''90'') = Some 90"
  by (simp add: try_quality_def sample_py_int)

lemma sample_strip:
  "strip (ascii ''output.webp'') = ascii ''output.webp''"
  "strip (ascii ''output.png'') = ascii ''output.png''"
  by (simp_all add: strip_def is_unicode_space_def ascii_def)

lemma sample_extensions:
  "endswith (ascii ''output.webp'') (ascii ''.webp'')"
  "\<not> endswith (ascii ''output.webp'') (ascii ''.png'')"
  "endswith (ascii ''output.png'') (ascii ''.png'')"
  "endswith (ascii ''out.webp'') (ascii ''.webp'')"
  by (simp_all add: endswith_def ascii_def)

lemma sample_started:
  "convert_images sample_app =
     ((show_toast sample_app ''Converting...'' 0 ''progress'')
        \<lparr>thread := Some \<lparr>thread_output_file = ascii ''output.webp'',
                  thread_input_folder = ascii ''frames'',
                  thread_format_type = ''webp'', thread_delay = 41, thread_quality = 90,
                  thread_lossless = False\<rparr>\<rparr>,
      Some \<lparr>thread_output_file = ascii ''output.webp'',
                  thread_input_folder = ascii ''frames'',
                  thread_format_type = ''webp'', thread_delay = 41, thread_quality = 90,
                  thread_lossless = False\<rparr>)"
  using convert_images_started [of sample_app "ascii ''frames''" 41 90]
  by (simp add: sample_app_fields sample_folder_not_empty sample_try_delay sample_try_quality
        sample_extensions sample_strip)

text \<open>
  A quality in full-width digits is read as 90 and the conversion starts; a frame rate with
  the separator 0x1C before it is refused, in lossless mode as in lossy mode.
\<close>

lemma sample_fullwidth_quality_started:
  "snd (convert_images (sample_app\<lparr>quality_entry := [0xFF19, 0xFF10]\<rparr>)) =
     Some \<lparr>thread_output_file = ascii ''output.webp'', thread_input_folder = ascii ''frames'',
           thread_format_type = ''webp'', thread_delay = 41, thread_quality = 90,
           thread_lossless = False\<rparr>"
  using convert_images_started
          [of "sample_app\<lparr>quality_entry := [0xFF19, 0xFF10]\<rparr>" "ascii ''frames''" 41 90]
  by (simp add: sample_app_fields sample_folder_not_empty sample_try_delay sample_extensions
        sample_strip try_quality_def py_int_fullwidth_ninety)

lemma sample_separator_rate_refused:
  "snd (convert_images (sample_app\<lparr>compression_checked := ''Lossless Mode'',
                                   delay_entry := [0x1C] @ ascii ''24''\<rparr>)) = None"
proof -
  have "try_delay ([0x1C] @ ascii ''24'') = None"
    using py_int_separator_rejected by (simp add: try_delay_def)
  then show ?thesis
    using convert_images_bad_rate
            [of "sample_app\<lparr>compression_checked := ''Lossless Mode'',
                              delay_entry := [0x1C] @ ascii ''24''\<rparr>" "ascii ''frames''"]
    by (simp add: sample_app_fields sample_folder_not_empty)
qed

text \<open>
  C3. When WebP is selected and the trimmed output file name does not end with \<^verbatim>\<open>.webp\<close>, or
  APNG is selected and it does not end with \<^verbatim>\<open>.png\<close>, \<^verbatim>\<open>convert_images\<close> shows an error toast
  and starts no thread. When the extension matches the format, the toast it shows is not
  one of the two messages of the extension check.
\<close>

theorem extension_check_enforced:
  "((format_checked self = ''WebP'' \<and>
       \<not> endswith (strip (output_entry self)) (ascii ''.webp'')) \<or>
    (format_checked self = ''APNG'' \<and>
       \<not> endswith (strip (output_entry self)) (ascii ''.png'')) \<longrightarrow>
      map_option toast_type (toast (fst (convert_images self))) = Some ''error'' \<and>
      snd (convert_images self) = None) \<and>
   ((format_checked self = ''WebP'' \<and> endswith (strip (output_entry self)) (ascii ''.webp'')) \<or>
    (format_checked self = ''APNG'' \<and> endswith (strip (output_entry self)) (ascii ''.png'')) \<longrightarrow>
      map_option message (toast (fst (convert_images self))) \<noteq>
        Some ''Output file name must end with .webp'' \<and>
      map_option message (toast (fst (convert_images self))) \<noteq>
        Some ''Output file name must end with .png'')"
proof (cases self rule: convert_images_cases)
  case no_folder
  from convert_images_no_folder [OF this] show ?thesis
    by (simp add: show_toast_def)
next
  case (bad_rate folder)
  from convert_images_bad_rate [OF this] show ?thesis
    by (simp add: show_toast_def)
next
  case (bad_extension folder d)
  from convert_images_bad_extension [OF this] bad_extension(4) show ?thesis
    by (auto simp: show_toast_def)
next
  case (bad_quality folder d)
  from convert_images_bad_quality [OF this] show ?thesis
    by (simp add: show_toast_def)
next
  case (started folder d q)
  from convert_images_started [OF this] started(4) show ?thesis
    by (auto simp: show_toast_def)
qed

theorem extension_check_enforced_witness:
  "format_checked (sample_app\<lparr>format_checked := ''APNG''\<rparr>) = ''APNG'' \<and>
   \<not> endswith (strip (output_entry (sample_app\<lparr>format_checked := ''APNG''\<rparr>))) (ascii ''.png'') \<and>
   map_option toast_type (toast (fst (convert_images (sample_app\<lparr>format_checked := ''APNG''\<rparr>)))) =
     Some ''error'' \<and>
   snd (convert_images (sample_app\<lparr>format_checked := ''APNG''\<rparr>)) = None \<and>
   format_checked sample_app = ''WebP'' \<and>
   endswith (strip (output_entry sample_app)) (ascii ''.webp'') \<and>
   map_option message (toast (fst (convert_images sample_app))) \<noteq>
     Some ''Output file name must end with .webp'' \<and>
   format_checked (sample_app\<lparr>output_entry := ascii ''out.webp'' @ [0xA0]\<rparr>) = ''WebP'' \<and>
   endswith (strip (output_entry (sample_app\<lparr>output_entry := ascii ''out.webp'' @ [0xA0]\<rparr>)))
     (ascii ''.webp'') \<and>
   map_option message
     (toast (fst (convert_images (sample_app\<lparr>output_entry := ascii ''out.webp'' @ [0xA0]\<rparr>)))) \<noteq>
     Some ''Output file name must end with .webp''"
proof -
  have a: "format_checked (sample_app\<lparr>format_checked := ''APNG''\<rparr>) = ''APNG''"
    by simp
  have b: "\<not> endswith (strip (output_entry (sample_app\<lparr>format_checked := ''APNG''\<rparr>)))
             (ascii ''.png'')"
    by (simp add: sample_app_fields sample_strip sample_extensions)
  have c: "format_checked sample_app = ''WebP''"
    by (rule sample_app_fields)
  have d: "endswith (strip (output_entry sample_app)) (ascii ''.webp'')"
    by (simp add: sample_app_fields sample_strip sample_extensions)
  have e: "format_checked (sample_app\<lparr>output_entry := ascii ''out.webp'' @ [0xA0]\<rparr>) = ''WebP''"
    by (simp add: sample_app_fields)
  have f: "endswith (strip (output_entry (sample_app\<lparr>output_entry := ascii ''out.webp'' @ [0xA0]\<rparr>)))
             (ascii ''.webp'')"
    by (simp add: strip_no_break_space sample_extensions)
  from a b c d e f
    extension_check_enforced [of "sample_app\<lparr>format_checked := ''APNG''\<rparr>"]
    extension_check_enforced [of sample_app]
    extension_check_enforced [of "sample_app\<lparr>output_entry := ascii ''out.webp'' @ [0xA0]\<rparr>"]
  show ?thesis by blast
qed

text \<open>
  C4. In lossy mode a thread is started only if the quality text reads as an integer between
  0 and 100, which is then the quality of the thread; a quality text that \<^verbatim>\<open>int()\<close> rejects,
  or that reads outside this range, gives an error toast and no thread.
\<close>

theorem lossy_quality_check:
  "compression_checked self \<noteq> ''Lossless Mode'' \<longrightarrow>
     (\<forall>t. snd (convert_images self) = Some t \<longrightarrow>
        (\<exists>q. py_int (quality_entry self) = Some q \<and> 0 \<le> q \<and> q \<le> 100 \<and>
             thread_quality t = q)) \<and>
     (py_int (quality_entry self) = None \<or>
      (\<exists>q. py_int (quality_entry self) = Some q \<and> (q < 0 \<or> 100 < q)) \<longrightarrow>
        map_option toast_type (toast (fst (convert_images self))) = Some ''error'' \<and>
        snd (convert_images self) = None)"
proof (cases self rule: convert_images_cases)
  case no_folder
  from convert_images_no_folder [OF this] show ?thesis
    by (simp add: show_toast_def)
next
  case (bad_rate folder)
  from convert_images_bad_rate [OF this] show ?thesis
    by (simp add: show_toast_def)
next
  case (bad_extension folder d)
  from convert_images_bad_extension [OF this] show ?thesis
    by (simp add: show_toast_def)
next
  case (bad_quality folder d)
  from convert_images_bad_quality [OF this] show ?thesis
    by (simp add: show_toast_def)
next
  case (started folder d q)
  from convert_images_started [OF this] started(5) show ?thesis
    by (auto simp: try_quality_Some split: if_splits)
qed

theorem lossy_quality_check_witness:
  "compression_checked sample_app \<noteq> ''Lossless Mode'' \<and>
   snd (convert_images sample_app) =
     Some \<lparr>thread_output_file = ascii ''output.webp'', thread_input_folder = ascii ''frames'',
           thread_format_type = ''webp'', thread_delay = 41, thread_quality = 90,
           thread_lossless = False\<rparr> \<and>
   py_int (quality_entry sample_app) = Some 90 \<and>
   compression_checked (sample_app\<lparr>quality_entry := ascii ''101''\<rparr>) \<noteq> ''Lossless Mode'' \<and>
   py_int (quality_entry (sample_app\<lparr>quality_entry := ascii ''101''\<rparr>)) = Some 101 \<and>
   map_option toast_type
     (toast (fst (convert_images (sample_app\<lparr>quality_entry := ascii ''101''\<rparr>)))) =
     Some ''error'' \<and>
   snd (convert_images (sample_app\<lparr>quality_entry := ascii ''101''\<rparr>)) = None \<and>
   compression_checked (sample_app\<lparr>quality_entry := ascii ''high''\<rparr>) \<noteq> ''Lossless Mode'' \<and>
   py_int (quality_entry (sample_app\<lparr>quality_entry := ascii ''high''\<rparr>)) = None \<and>
   map_option toast_type
     (toast (fst (convert_images (sample_app\<lparr>quality_entry := ascii ''high''\<rparr>)))) =
     Some ''error'' \<and>
   snd (convert_images (sample_app\<lparr>quality_entry := ascii ''high''\<rparr>)) = None"
proof -
  have a: "compression_checked sample_app \<noteq> ''Lossless Mode''"
    by (simp add: sample_app_fields)
  have b: "snd (convert_images sample_app) =
     Some \<lparr>thread_output_file = ascii ''output.webp'', thread_input_folder = ascii ''frames'',
           thread_format_type = ''webp'', thread_delay = 41, thread_quality = 90,
           thread_lossless = False\<rparr>"
    by (simp add: sample_started)
  have c: "compression_checked (sample_app\<lparr>quality_entry := ascii ''101''\<rparr>) \<noteq> ''Lossless Mode''"
    by (simp add: sample_app_fields)
  have d: "py_int (quality_entry (sample_app\<lparr>quality_entry := ascii ''101''\<rparr>)) = Some 101"
    by (simp add: sample_py_int)
  have e: "compression_checked (sample_app\<lparr>quality_entry := ascii ''high''\<rparr>) \<noteq> ''Lossless Mode''"
    by (simp add: sample_app_fields)
  have f: "py_int (quality_entry (sample_app\<lparr>quality_entry := ascii ''high''\<rparr>)) = None"
    by (simp add: sample_py_int)
  from a b c d e f
    lossy_quality_check [of sample_app]
    lossy_quality_check [of "sample_app\<lparr>quality_entry := ascii ''101''\<rparr>"]
    lossy_quality_check [of "sample_app\<lparr>quality_entry := ascii ''high''\<rparr>"]
  show ?thesis by auto
qed

text \<open>
  C5. A frame-rate text that reads as an integer \<open>fps > 0\<close> is never answered with the
  frame-rate error, and the delay of a thread started is \<open>1000 / fps\<close> truncated to an
  integer. Any other frame-rate text gives an error toast and no thread, and the toast is
  the frame-rate error whenever a folder is selected (without a folder the frame rate is
  not read).
\<close>

theorem frame_rate_check:
  "(py_int (delay_entry self) = Some fps \<and> 0 < fps \<longrightarrow>
      map_option message (toast (fst (convert_images self))) \<noteq>
        Some ''Frame rate must be a positive integer'' \<and>
      (\<forall>t. snd (convert_images self) = Some t \<longrightarrow>
         thread_delay t = \<lfloor>1000 / real_of_int fps\<rfloor>)) \<and>
   (\<not> (\<exists>n. py_int (delay_entry self) = Some n \<and> 0 < n) \<longrightarrow>
      map_option toast_type (toast (fst (convert_images self))) = Some ''error'' \<and>
      snd (convert_images self) = None \<and>
      (\<forall>folder. input_folder self = Some folder \<and> folder \<noteq> [] \<longrightarrow>
         map_option message (toast (fst (convert_images self))) =
           Some ''Frame rate must be a positive integer''))"
proof (cases self rule: convert_images_cases)
  case no_folder
  from convert_images_no_folder [OF this] no_folder show ?thesis
    by (auto simp: show_toast_def)
next
  case (bad_rate folder)
  from convert_images_bad_rate [OF this] bad_rate(3) show ?thesis
    by (auto simp: show_toast_def try_delay_None)
next
  case (bad_extension folder d)
  from convert_images_bad_extension [OF this] bad_extension(3) show ?thesis
    by (auto simp: show_toast_def try_delay_Some)
next
  case (bad_quality folder d)
  from convert_images_bad_quality [OF this] bad_quality(3) show ?thesis
    by (auto simp: show_toast_def try_delay_Some)
next
  case (started folder d q)
  from started(3) obtain n where n: "py_int (delay_entry self) = Some n" "0 < n"
    "d = int_truediv 1000 n"
    by (auto simp: try_delay_Some)
  have "int_truediv 1000 n = \<lfloor>1000 / real_of_int n\<rfloor>"
    using int_truediv_floor [of n 1000] n(2) by simp
  with convert_images_started [OF started] n show ?thesis
    by (auto simp: show_toast_def)
qed

theorem frame_rate_check_witness:
  "py_int (delay_entry sample_app) = Some 24 \<and> (0::int) < 24 \<and>
   map_option message (toast (fst (convert_images sample_app))) \<noteq>
     Some ''Frame rate must be a positive integer'' \<and>
   snd (convert_images sample_app) =
     Some \<lparr>thread_output_file = ascii ''output.webp'', thread_input_folder = ascii ''frames'',
           thread_format_type = ''webp'', thread_delay = 41, thread_quality = 90,
           thread_lossless = False\<rparr> \<and>
   (41::int) = \<lfloor>1000 / real_of_int 24\<rfloor> \<and>
   py_int (delay_entry (sample_app\<lparr>delay_entry := ascii ''0''\<rparr>)) = Some 0 \<and>
   input_folder (sample_app\<lparr>delay_entry := ascii ''0''\<rparr>) = Some (ascii ''frames'') \<and>
   map_option message (toast (fst (convert_images (sample_app\<lparr>delay_entry := ascii ''0''\<rparr>)))) =
     Some ''Frame rate must be a positive integer'' \<and>
   snd (convert_images (sample_app\<lparr>delay_entry := ascii ''0''\<rparr>)) = None \<and>
   py_int (delay_entry (sample_app\<lparr>delay_entry := [0x1C] @ ascii ''24''\<rparr>)) = None \<and>
   map_option message
     (toast (fst (convert_images (sample_app\<lparr>delay_entry := [0x1C] @ ascii ''24''\<rparr>)))) =
     Some ''Frame rate must be a positive integer'' \<and>
   snd (convert_images (sample_app\<lparr>delay_entry := [0x1C] @ ascii ''24''\<rparr>)) = None"
proof -
  have a: "py_int (delay_entry sample_app) = Some 24"
    by (simp add: sample_app_fields sample_py_int)
  have b: "snd (convert_images sample_app) =
     Some \<lparr>thread_output_file = ascii ''output.webp'', thread_input_folder = ascii ''frames'',
           thread_format_type = ''webp'', thread_delay = 41, thread_quality = 90,
           thread_lossless = False\<rparr>"
    by (simp add: sample_started)
  have c: "py_int (delay_entry (sample_app\<lparr>delay_entry := ascii ''0''\<rparr>)) = Some 0"
    by (simp add: sample_py_int)
  have d: "input_folder (sample_app\<lparr>delay_entry := ascii ''0''\<rparr>) = Some (ascii ''frames'')"
    by (simp add: sample_app_fields)
  have e: "py_int (delay_entry (sample_app\<lparr>delay_entry := [0x1C] @ ascii ''24''\<rparr>)) = None"
    using py_int_separator_rejected by simp
  have f: "input_folder (sample_app\<lparr>delay_entry := [0x1C] @ ascii ''24''\<rparr>) =
             Some (ascii ''frames'')"
    by (simp add: sample_app_fields)
  from a b c d e f sample_folder_not_empty
    frame_rate_check [of sample_app 24]
    frame_rate_check [of "sample_app\<lparr>delay_entry := ascii ''0''\<rparr>" 0]
    frame_rate_check [of "sample_app\<lparr>delay_entry := [0x1C] @ ascii ''24''\<rparr>" 0]
  show ?thesis by auto
qed

text \<open>
  C9. In lossless mode the quality text plays no part: replacing it by any text changes
  neither the thread started nor the toast shown; a thread that is started has quality 100
  and the lossless flag; and one is started as soon as a folder is selected, the frame rate
  is a positive integer and the extension matches the format.
\<close>

theorem lossless_skips_quality_entry:
  "compression_checked self = ''Lossless Mode'' \<longrightarrow>
     snd (convert_images (self\<lparr>quality_entry := text\<rparr>)) = snd (convert_images self) \<and>
     fst (convert_images (self\<lparr>quality_entry := text\<rparr>)) =
       (fst (convert_images self))\<lparr>quality_entry := text\<rparr> \<and>
     (\<forall>t. snd (convert_images self) = Some t \<longrightarrow> thread_quality t = 100 \<and> thread_lossless t) \<and>
     ((\<exists>folder. input_folder self = Some folder \<and> folder \<noteq> []) \<and>
      (\<exists>fps. py_int (delay_entry self) = Some fps \<and> 0 < fps) \<and>
      endswith (strip (output_entry self))
        (ascii (if format_checked self = ''WebP'' then ''.webp'' else ''.png'')) \<longrightarrow>
        (\<exists>t. snd (convert_images self) = Some t))"
proof (intro impI conjI allI)
  assume l: "compression_checked self = ''Lossless Mode''"
  show "snd (convert_images (self\<lparr>quality_entry := text\<rparr>)) = snd (convert_images self)"
    using l by (simp add: convert_images_def show_toast_def Let_def split: option.splits)
  show "fst (convert_images (self\<lparr>quality_entry := text\<rparr>)) =
       (fst (convert_images self))\<lparr>quality_entry := text\<rparr>"
    using l by (simp add: convert_images_def show_toast_def Let_def split: option.splits)
next
  fix t
  assume l: "compression_checked self = ''Lossless Mode''"
    and t: "snd (convert_images self) = Some t"
  show "thread_quality t = 100"
  proof (cases self rule: convert_images_cases)
    case (started folder d q)
    from convert_images_started [OF this] started(5) l t show ?thesis by auto
  qed (use t l in \<open>simp_all add: convert_images_no_folder convert_images_bad_rate
         convert_images_bad_extension convert_images_bad_quality\<close>)
  show "thread_lossless t"
  proof (cases self rule: convert_images_cases)
    case (started folder d q)
    from convert_images_started [OF this] started(5) l t show ?thesis by auto
  qed (use t l in \<open>simp_all add: convert_images_no_folder convert_images_bad_rate
         convert_images_bad_extension convert_images_bad_quality\<close>)
next
  assume l: "compression_checked self = ''Lossless Mode''"
    and ok: "(\<exists>folder. input_folder self = Some folder \<and> folder \<noteq> []) \<and>
      (\<exists>fps. py_int (delay_entry self) = Some fps \<and> 0 < fps) \<and>
      endswith (strip (output_entry self))
        (ascii (if format_checked self = ''WebP'' then ''.webp'' else ''.png''))"
  from ok obtain folder fps where f: "input_folder self = Some folder" "folder \<noteq> []"
    and r: "py_int (delay_entry self) = Some fps" "0 < fps"
    and e: "endswith (strip (output_entry self))
        (ascii (if format_checked self = ''WebP'' then ''.webp'' else ''.png''))"
    by blast
  from r have d: "try_delay (delay_entry self) = Some (int_truediv 1000 fps)"
    by (simp add: try_delay_Some)
  have q: "(if compression_checked self \<noteq> ''Lossless Mode'' then try_quality (quality_entry self)
        else Some 100) = Some 100"
    using l by simp
  from convert_images_started [OF f d e q]
  show "\<exists>t. snd (convert_images self) = Some t" by simp
qed

theorem lossless_skips_quality_entry_witness:
  "compression_checked (sample_app\<lparr>compression_checked := ''Lossless Mode''\<rparr>) = ''Lossless Mode'' \<and>
   snd (convert_images (sample_app\<lparr>compression_checked := ''Lossless Mode'',
                                   quality_entry := ascii ''high''\<rparr>)) =
     snd (convert_images (sample_app\<lparr>compression_checked := ''Lossless Mode''\<rparr>)) \<and>
   snd (convert_images (sample_app\<lparr>compression_checked := ''Lossless Mode''\<rparr>)) =
     Some \<lparr>thread_output_file = ascii ''output.webp'', thread_input_folder = ascii ''frames'',
           thread_format_type = ''webp'', thread_delay = 41, thread_quality = 100,
           thread_lossless = True\<rparr>"
proof -
  have a: "compression_checked (sample_app\<lparr>compression_checked := ''Lossless Mode''\<rparr>) =
             ''Lossless Mode''"
    by simp
  have b: "snd (convert_images (sample_app\<lparr>compression_checked := ''Lossless Mode''\<rparr>)) =
     Some \<lparr>thread_output_file = ascii ''output.webp'', thread_input_folder = ascii ''frames'',
           thread_format_type = ''webp'', thread_delay = 41, thread_quality = 100,
           thread_lossless = True\<rparr>"
    using convert_images_started
            [of "sample_app\<lparr>compression_checked := ''Lossless Mode''\<rparr>" "ascii ''frames''" 41 100]
    by (simp add: sample_app_fields sample_folder_not_empty sample_try_delay sample_extensions
          sample_strip)
  from a b
    lossless_skips_quality_entry
      [of "sample_app\<lparr>compression_checked := ''Lossless Mode''\<rparr>" "ascii ''high''"]
  show ?thesis by simp
qed

lemma run_apng_success:
  assumes "thread_format_type t = ''apng''" "run t w = (out, w')" "emitted out = [(True, [])]"
  shows "create_apng (thread_output_file t) (thread_input_folder t) (thread_delay t) w =
           (Inr (), w')"
proof -
  obtain r v where c: "create_apng (thread_output_file t) (thread_input_folder t)
      (thread_delay t) w = (r, v)"
    by (cases "create_apng (thread_output_file t) (thread_input_folder t) (thread_delay t) w") auto
  from assms c show ?thesis
    by (cases r) (auto simp: run_def)
qed

text \<open>
  The number that \<^verbatim>\<open>create_apng\<close> gives every frame as its delay is \<open>delay / 10\<close> truncated
  to an integer, for every delay a double holds exactly. For a frame rate \<open>f\<close> entered in the
  window, every frame of an APNG conversion that succeeds gets the number
  \<open>trunc (trunc (1000 / f) / 10)\<close>, which is 4 for \<open>f = 24\<close> and 0 for every \<open>f > 1000\<close>, with
  the denominator 1000.
\<close>

lemma apng_delay_number:
  "(\<bar>delay\<bar> \<le> 2 ^ 53 \<and> create_apng output_file folder delay w = (Inr (), w') \<longrightarrow>
      (\<exists>frames. saved w' = saved w @ [ApngSave frames output_file] \<and> frames \<noteq> [] \<and>
         (\<forall>fr \<in> set frames. frame_delay fr = int_truediv delay 10 \<and>
                               frame_delay_den fr = 1000))) \<and>
   int_truediv delay 10 =
     (if 0 \<le> delay then \<lfloor>real_of_int delay / 10\<rfloor> else \<lceil>real_of_int delay / 10\<rceil>) \<and>
   (py_int (delay_entry self) = Some f \<and> snd (convert_images self) = Some t \<and>
    thread_format_type t = ''apng'' \<and> run t w = (out, w'') \<and> emitted out = [(True, [])] \<longrightarrow>
      (\<exists>frames. saved w'' = saved w @ [ApngSave frames (thread_output_file t)] \<and> frames \<noteq> [] \<and>
         (\<forall>fr \<in> set frames.
            frame_delay fr = \<lfloor>real_of_int \<lfloor>1000 / real_of_int f\<rfloor> / 10\<rfloor> \<and>
            frame_delay_den fr = 1000 \<and>
            (f = 24 \<longrightarrow> frame_delay fr = 4) \<and>
            (1000 < f \<longrightarrow> frame_delay fr = 0))))"
proof (intro conjI impI)
  assume "\<bar>delay\<bar> \<le> 2 ^ 53 \<and> create_apng output_file folder delay w = (Inr (), w')"
  then have a: "create_apng output_file folder delay w = (Inr (), w')" by simp
  have ne: "sort (glob w (path_join folder (ascii ''*.png''))) \<noteq> []"
    using a by (auto simp: create_apng_def)
  from create_apng_success [OF a] ne
  show "\<exists>frames. saved w' = saved w @ [ApngSave frames output_file] \<and> frames \<noteq> [] \<and>
         (\<forall>fr \<in> set frames. frame_delay fr = int_truediv delay 10 \<and> frame_delay_den fr = 1000)"
    by auto
next
  show "int_truediv delay 10 =
     (if 0 \<le> delay then \<lfloor>real_of_int delay / 10\<rfloor> else \<lceil>real_of_int delay / 10\<rceil>)"
    using int_truediv_floor [of 10 delay] int_truediv_ceiling [of 10 delay] by simp
next
  assume h: "py_int (delay_entry self) = Some f \<and> snd (convert_images self) = Some t \<and>
    thread_format_type t = ''apng'' \<and> run t w = (out, w'') \<and> emitted out = [(True, [])]"
  have pos: "0 < f"
  proof (rule ccontr)
    assume "\<not> 0 < f"
    with h have "\<not> (\<exists>n. py_int (delay_entry self) = Some n \<and> 0 < n)" by simp
    then have "try_delay (delay_entry self) = None" by (simp add: try_delay_None)
    then have "snd (convert_images self) = None"
      by (cases self rule: convert_images_cases)
         (simp_all add: convert_images_no_folder convert_images_bad_rate)
    with h show False by simp
  qed
  have d: "thread_delay t = 1000 div f"
  proof (cases self rule: convert_images_cases)
    case (started folder d q)
    from started(3) h pos have "d = 1000 div f"
      by (auto simp: try_delay_Some int_truediv_pos)
    with convert_images_started [OF started] h show ?thesis by auto
  qed (use h in \<open>simp_all add: convert_images_no_folder convert_images_bad_rate
         convert_images_bad_extension convert_images_bad_quality\<close>)
  have nonneg: "0 \<le> 1000 div f"
    using pos by (simp add: pos_imp_zdiv_nonneg_iff)
  have v: "int_truediv (thread_delay t) 10 = (1000 div f) div 10"
    using d nonneg by (simp add: int_truediv_pos)
  have fl: "(1000 div f) div 10 = \<lfloor>real_of_int \<lfloor>1000 / real_of_int f\<rfloor> / 10\<rfloor>"
  proof -
    have "\<lfloor>1000 / real_of_int f\<rfloor> = 1000 div f"
      using floor_divide_of_int_eq [of 1000 f, where ?'a = real] by simp
    moreover have "\<lfloor>real_of_int (1000 div f) / 10\<rfloor> = (1000 div f) div 10"
      using floor_divide_of_int_eq [of "1000 div f" 10, where ?'a = real] by simp
    ultimately show ?thesis by simp
  qed
  have big: "1000 < f \<Longrightarrow> (1000 div f) div 10 = 0"
    by (simp add: div_pos_pos_trivial)
  have c24: "f = 24 \<Longrightarrow> (1000 div f) div 10 = 4"
    by simp
  from h have a: "create_apng (thread_output_file t) (thread_input_folder t) (thread_delay t) w =
           (Inr (), w'')"
    using run_apng_success [of t w out w''] by simp
  have ne: "sort (glob w (path_join (thread_input_folder t) (ascii ''*.png''))) \<noteq> []"
    using a by (auto simp: create_apng_def)
  from create_apng_success [OF a] ne v fl big c24
  show "\<exists>frames. saved w'' = saved w @ [ApngSave frames (thread_output_file t)] \<and> frames \<noteq> [] \<and>
         (\<forall>fr \<in> set frames.
            frame_delay fr = \<lfloor>real_of_int \<lfloor>1000 / real_of_int f\<rfloor> / 10\<rfloor> \<and>
            frame_delay_den fr = 1000 \<and>
            (f = 24 \<longrightarrow> frame_delay fr = 4) \<and>
            (1000 < f \<longrightarrow> frame_delay fr = 0))"
    by auto
qed

text \<open>
  C10 says that a frame rate of 24 gives an APNG whose frames last 4 centiseconds, that is
  40 ms, and the source says of its division by 10 that the apng package counts in
  centiseconds. The window with APNG selected and the frame rate 24 starts the thread with
  the delay 41; on the sample folder the thread succeeds and saves three frames with the
  delay 4 over the denominator 1000 of the package: each frame lasts 4 ms.
\<close>

theorem apng_frames_last_four_milliseconds:
  "py_int (delay_entry (toggle_format (sample_app\<lparr>format_checked := ''APNG''\<rparr>))) = Some 24 \<and>
   snd (convert_images (toggle_format (sample_app\<lparr>format_checked := ''APNG''\<rparr>))) =
     Some sample_apng_thread \<and>
   emitted (fst (run sample_apng_thread sample_world)) = [(True, [])] \<and>
   saved (snd (run sample_apng_thread sample_world)) =
     [ApngSave
        [\<lparr>frame_file = ascii ''frames/a.png'', frame_delay = 4, frame_delay_den = 1000\<rparr>,
         \<lparr>frame_file = ascii ''frames/b.png'', frame_delay = 4, frame_delay_den = 1000\<rparr>,
         \<lparr>frame_file = ascii ''frames/c.png'', frame_delay = 4, frame_delay_den = 1000\<rparr>]
        (ascii ''output.png'')] \<and>
   frame_milliseconds
     \<lparr>frame_file = ascii ''frames/a.png'', frame_delay = 4, frame_delay_den = 1000\<rparr> = 4"
proof -
  have f: "input_folder (toggle_format (sample_app\<lparr>format_checked := ''APNG''\<rparr>)) =
             Some (ascii ''frames'')"
    "output_entry (toggle_format (sample_app\<lparr>format_checked := ''APNG''\<rparr>)) = ascii ''output.png''"
    "quality_entry (toggle_format (sample_app\<lparr>format_checked := ''APNG''\<rparr>)) = ascii ''90''"
    "delay_entry (toggle_format (sample_app\<lparr>format_checked := ''APNG''\<rparr>)) = ascii ''24''"
    "format_checked (toggle_format (sample_app\<lparr>format_checked := ''APNG''\<rparr>)) = ''APNG''"
    "compression_checked (toggle_format (sample_app\<lparr>format_checked := ''APNG''\<rparr>)) =
       ''Lossy Mode''"
    by (simp_all add: toggle_format_def sample_app_fields)
  have a: "py_int (delay_entry (toggle_format (sample_app\<lparr>format_checked := ''APNG''\<rparr>))) =
             Some 24"
    by (simp add: f sample_py_int)
  have b: "snd (convert_images (toggle_format (sample_app\<lparr>format_checked := ''APNG''\<rparr>))) =
             Some sample_apng_thread"
    using convert_images_started
            [of "toggle_format (sample_app\<lparr>format_checked := ''APNG''\<rparr>)" "ascii ''frames''" 41 90]
    by (simp add: f sample_folder_not_empty sample_try_delay sample_try_quality sample_extensions
          sample_strip sample_apng_thread_def)
  have c: "run sample_apng_thread sample_world =
     (\<lparr>propagated = None, emitted = [(True, [])]\<rparr>,
      sample_world\<lparr>saved :=
        [ApngSave
          [\<lparr>frame_file = ascii ''frames/a.png'', frame_delay = 4, frame_delay_den = 1000\<rparr>,
           \<lparr>frame_file = ascii ''frames/b.png'', frame_delay = 4, frame_delay_den = 1000\<rparr>,
           \<lparr>frame_file = ascii ''frames/c.png'', frame_delay = 4, frame_delay_den = 1000\<rparr>]
          (ascii ''output.png'')]\<rparr>)"
    by (simp add: run_def sample_apng_thread_def create_apng_def sample_sorted_glob
          append_file_def apng_save_def Let_def sample_world_quiet int_truediv_def)
  have d: "frame_milliseconds
     \<lparr>frame_file = ascii ''frames/a.png'', frame_delay = 4, frame_delay_den = 1000\<rparr> = 4"
    by (simp add: frame_milliseconds_def)
  from a b c d show ?thesis by simp
qed

end
